theory Spec2Isabelle
  imports Complex_Main
begin

section \<open>The orbital menu hook: data model\<close>

text \<open>
  The hook \<^verbatim>\<open>useOrbitalMenu\<close> keeps four pieces of React state and four refs, and
  returns five handlers. JavaScript numbers are modelled as \<^typ>\<open>real\<close>; the rounding of
  doubles is written out where a claim depends on it, for the angles of the layout, and NaN
  and the infinities are outside the model. \<^verbatim>\<open>itemCount\<close>, which the callers set to the
  length of an array, is an \<^typ>\<open>int\<close>, and \<^verbatim>\<open>Date.now()\<close>, a whole number of
  milliseconds, is an \<^typ>\<open>int\<close> too.
\<close>

record Position =
  x :: real
  y :: real

record ItemPosition = Position +
  angle :: real

record UseOrbitalMenuProps =
  itemCount :: int
  radius :: real
  startAngle :: real
  sweepAngle :: real
  buttonSize :: real
  itemSize :: real
  boundaryPadding :: real
  initialPosition :: Position

definition DEFAULT_RADIUS :: real where "DEFAULT_RADIUS = 100"
definition DEFAULT_START_ANGLE :: real where "DEFAULT_START_ANGLE = - pi / 2"
definition DEFAULT_SWEEP_ANGLE :: real where "DEFAULT_SWEEP_ANGLE = pi * 2"
definition DEFAULT_BUTTON_SIZE :: real where "DEFAULT_BUTTON_SIZE = 50"
definition DEFAULT_ITEM_SIZE :: real where "DEFAULT_ITEM_SIZE = 40"
definition DEFAULT_BOUNDARY_PADDING :: real where "DEFAULT_BOUNDARY_PADDING = 10"
definition CLICK_THRESHOLD_MS :: int where "CLICK_THRESHOLD_MS = 200"
definition CLICK_THRESHOLD_PX :: real where "CLICK_THRESHOLD_PX = 5"

text \<open>
  The props a caller gets when it passes \<^verbatim>\<open>itemCount\<close> only; \<open>innerHeight\<close> is
  \<^verbatim>\<open>window.innerHeight\<close> at the first render.
\<close>

definition defaultProps :: "int \<Rightarrow> real \<Rightarrow> UseOrbitalMenuProps" where
  "defaultProps n innerHeight =
     \<lparr>itemCount = n, radius = DEFAULT_RADIUS, startAngle = DEFAULT_START_ANGLE,
      sweepAngle = DEFAULT_SWEEP_ANGLE, buttonSize = DEFAULT_BUTTON_SIZE,
      itemSize = DEFAULT_ITEM_SIZE, boundaryPadding = DEFAULT_BOUNDARY_PADDING,
      initialPosition = \<lparr>x = 100, y = innerHeight / 2\<rparr>\<rparr>"

text \<open>
  What a pointer or mouse event carries, as far as the handlers read it, and the rectangle
  \<^verbatim>\<open>getBoundingClientRect()\<close> returns (\<^verbatim>\<open>left\<close>, \<^verbatim>\<open>top\<close>, \<^verbatim>\<open>width\<close>, \<^verbatim>\<open>height\<close>).
\<close>

record PointerEvent =
  clientX :: real
  clientY :: real
  pointerId :: nat

record DOMRect =
  leftRect :: real
  topRect :: real
  widthRect :: real
  heightRect :: real

text \<open>
  The state of one mounted hook. The first four fields are the \<^verbatim>\<open>useState\<close> cells, the
  next four the \<^verbatim>\<open>useRef\<close> cells. The last two belong to the window: its list of
  animation frame callbacks that were requested and have neither run nor been cancelled
  (each with its handle and the event its closure captured), and the identifier the window
  hands out, which \<^verbatim>\<open>requestAnimationFrame\<close> increments before it returns it, so that
  a handle is never 0.
\<close>

record HookState =
  isOpen :: bool
  buttonPosition :: Position
  itemPositions :: "ItemPosition list"
  isDragging :: bool
  dragStartRef :: "Position option"
  dragStartTimeRef :: int
  dragOffsetRef :: Position
  animationFrameRef :: "nat option"
  frameCallbacks :: "(nat \<times> PointerEvent) list"
  frameCallbackId :: nat

definition useOrbitalMenu :: "UseOrbitalMenuProps \<Rightarrow> HookState" where
  "useOrbitalMenu props =
     \<lparr>isOpen = False, buttonPosition = initialPosition props, itemPositions = [],
      isDragging = False, dragStartRef = None, dragStartTimeRef = 0,
      dragOffsetRef = \<lparr>x = 0, y = 0\<rparr>, animationFrameRef = None,
      frameCallbacks = [], frameCallbackId = 0\<rparr>"

section \<open>Layout: \<^verbatim>\<open>calculateItemPositions\<close>\<close>

definition angleStep :: "UseOrbitalMenuProps \<Rightarrow> real" where
  "angleStep props =
     (if itemCount props > 1 then sweepAngle props / real_of_int (itemCount props - 1) else 0)"

text \<open>The \<^verbatim>\<open>for\<close> loop, with its counter \<open>i\<close> and the array it pushes to.\<close>

function calculateItemPositions_loop ::
  "UseOrbitalMenuProps \<Rightarrow> real \<Rightarrow> real \<Rightarrow> int \<Rightarrow> ItemPosition list \<Rightarrow> ItemPosition list" where
  "calculateItemPositions_loop props cx cy i positions =
     (if i < itemCount props then
        (let a = startAngle props
                   + (if itemCount props = 1 then 0 else real_of_int i * angleStep props);
             px = cx + radius props * cos a;
             py = cy + radius props * sin a
         in calculateItemPositions_loop props cx cy (i + 1)
              (positions @ [\<lparr>x = px, y = py, angle = a\<rparr>]))
      else positions)"
  by pat_completeness auto
termination
  by (relation "measure (\<lambda>(props, cx, cy, i, positions). nat (itemCount props - i))") auto

declare calculateItemPositions_loop.simps [simp del]

definition calculateItemPositions ::
  "UseOrbitalMenuProps \<Rightarrow> real \<Rightarrow> real \<Rightarrow> ItemPosition list" where
  "calculateItemPositions props cx cy = calculateItemPositions_loop props cx cy 0 []"

section \<open>The angle arithmetic in doubles\<close>

text \<open>
  The angle of item \<open>i\<close> once more (the two lines that compute \<^verbatim>\<open>angleStep\<close> and
  \<^verbatim>\<open>angle\<close>), with the rounding of IEEE 754 doubles, which JavaScript numbers are,
  written out: the result of every division, multiplication and addition is rounded to the
  nearest number with a significand of 53 bits, ties to the even significand, and with the
  fixed spacing \<open>pow2 (- 1074)\<close> of the subnormal numbers below \<open>pow2 (- 1022)\<close>. Results beyond the
  largest double, NaN and the sign of zero are left out. The loop counter and
  \<^verbatim>\<open>itemCount - 1\<close> are whole numbers and exact. This arithmetic decides whether the
  last item lies exactly at \<open>startAngle + sweepAngle\<close>; everywhere else numbers are reals.
\<close>

definition pow2 :: "int \<Rightarrow> real" where
  "pow2 e = (if 0 \<le> e then 2 ^ nat e else 1 / 2 ^ nat (- e))"

definition roundTiesToEven :: "real \<Rightarrow> int" where
  "roundTiesToEven q =
     (let f = \<lfloor>q\<rfloor>; d = q - of_int f
      in if d < 1 / 2 then f else if 1 / 2 < d then f + 1 else if even f then f else f + 1)"

definition toDouble :: "real \<Rightarrow> real" where
  "toDouble v =
     (if v = 0 then 0
      else let e = max \<lfloor>log 2 \<bar>v\<bar>\<rfloor> (- 1022) - 52
           in of_int (roundTiesToEven (v / pow2 e)) * pow2 e)"



section \<open>The effect that keeps \<^verbatim>\<open>itemPositions\<close> in step\<close>

definition itemPositionsEffect :: "UseOrbitalMenuProps \<Rightarrow> HookState \<Rightarrow> HookState" where
  "itemPositionsEffect props s =
     (if isOpen s
      then s\<lparr>itemPositions :=
               calculateItemPositions props (x (buttonPosition s)) (y (buttonPosition s))\<rparr>
      else s\<lparr>itemPositions := []\<rparr>)"

section \<open>The window's animation frames\<close>

definition cancelAnimationFrame :: "nat \<Rightarrow> HookState \<Rightarrow> HookState" where
  "cancelAnimationFrame h s =
     s\<lparr>frameCallbacks := filter (\<lambda>(h', ev). h' \<noteq> h) (frameCallbacks s)\<rparr>"

definition requestAnimationFrame :: "PointerEvent \<Rightarrow> HookState \<Rightarrow> nat \<times> HookState" where
  "requestAnimationFrame ev s =
     (let h = frameCallbackId s + 1
      in (h, s\<lparr>frameCallbackId := h, frameCallbacks := frameCallbacks s @ [(h, ev)]\<rparr>))"

section \<open>Event handlers\<close>

text \<open>
  \<^verbatim>\<open>preventDefault\<close>, \<^verbatim>\<open>stopPropagation\<close> and the pointer capture act on the document
  only and leave the hook's state alone, so the handlers below omit them. \<open>now\<close> is what
  \<^verbatim>\<open>Date.now()\<close> returns during the call, \<open>rect\<close> the button's rectangle when the button
  is mounted.
\<close>

definition handlePointerDown ::
  "int \<Rightarrow> DOMRect option \<Rightarrow> PointerEvent \<Rightarrow> HookState \<Rightarrow> HookState" where
  "handlePointerDown now rect ev s =
     s\<lparr>isDragging := True,
       dragStartTimeRef := now,
       dragStartRef := Some \<lparr>x = clientX ev, y = clientY ev\<rparr>,
       dragOffsetRef :=
         (case rect of
            Some r \<Rightarrow> \<lparr>x = clientX ev - (leftRect r + widthRect r / 2),
                       y = clientY ev - (topRect r + heightRect r / 2)\<rparr>
          | None \<Rightarrow> \<lparr>x = 0, y = 0\<rparr>)\<rparr>"

text \<open>The clamp of one axis: \<^verbatim>\<open>Math.max(min, Math.min(v, max))\<close> with the two bounds
  as the callback computes them from the button's size, the padding and the window's extent.\<close>

definition clampAxis :: "real \<Rightarrow> real \<Rightarrow> real \<Rightarrow> real \<Rightarrow> real" where
  "clampAxis bsize padding extent v =
     (let halfButton = bsize / 2;
          minV = halfButton + padding;
          maxV = extent - halfButton - padding
      in max minV (min v maxV))"

text \<open>The body of the callback handed to \<^verbatim>\<open>requestAnimationFrame\<close>; it reads the window's
  size when it runs.\<close>

definition moveCallback ::
  "UseOrbitalMenuProps \<Rightarrow> real \<Rightarrow> real \<Rightarrow> PointerEvent \<Rightarrow> HookState \<Rightarrow> HookState" where
  "moveCallback props innerWidth innerHeight ev s =
     (let currentX = clientX ev;
          currentY = clientY ev;
          newX = currentX - x (dragOffsetRef s);
          newY = currentY - y (dragOffsetRef s);
          newX = clampAxis (buttonSize props) (boundaryPadding props) innerWidth newX;
          newY = clampAxis (buttonSize props) (boundaryPadding props) innerHeight newY
      in s\<lparr>buttonPosition := \<lparr>x = newX, y = newY\<rparr>\<rparr>)"

text \<open>\<^verbatim>\<open>if (animationFrameRef.current)\<close> holds for a handle that is neither null nor 0.\<close>

definition handlePointerMove :: "PointerEvent \<Rightarrow> HookState \<Rightarrow> HookState" where
  "handlePointerMove ev s =
     (if \<not> isDragging s \<or> dragStartRef s = None then s
      else
        let s1 = (case animationFrameRef s of
                    Some h \<Rightarrow> if h \<noteq> 0 then cancelAnimationFrame h s else s
                  | None \<Rightarrow> s);
            (h, s2) = requestAnimationFrame ev s1
        in s2\<lparr>animationFrameRef := Some h\<rparr>)"

definition distanceMoved :: "PointerEvent \<Rightarrow> HookState \<Rightarrow> real" where
  "distanceMoved ev s =
     (case dragStartRef s of
        Some d \<Rightarrow> sqrt ((clientX ev - x d)\<^sup>2 + (clientY ev - y d)\<^sup>2)
      | None \<Rightarrow> 0)"

text \<open>Both branches of the click-or-drag test in \<^verbatim>\<open>handlePointerUp\<close> are empty, so the
  duration and the distance it computes have no effect on the state.\<close>

definition handlePointerUp :: "int \<Rightarrow> PointerEvent \<Rightarrow> HookState \<Rightarrow> HookState" where
  "handlePointerUp now ev s =
     (if \<not> isDragging s then s
      else
        let s1 = (case animationFrameRef s of
                    Some h \<Rightarrow>
                      if h \<noteq> 0 then (cancelAnimationFrame h s)\<lparr>animationFrameRef := None\<rparr>
                      else s
                  | None \<Rightarrow> s);
            upTime = now;
            duration = upTime - dragStartTimeRef s1;
            moved = distanceMoved ev s1;
            s2 = (if duration < CLICK_THRESHOLD_MS \<and> moved < CLICK_THRESHOLD_PX then s1 else s1)
        in s2\<lparr>isDragging := False, dragStartRef := None\<rparr>)"

definition handleClick :: "int \<Rightarrow> PointerEvent \<Rightarrow> HookState \<Rightarrow> HookState" where
  "handleClick now ev s =
     (let upTime = now;
          duration = upTime - dragStartTimeRef s;
          moved = distanceMoved ev s
      in if duration < CLICK_THRESHOLD_MS \<and> moved < CLICK_THRESHOLD_PX
         then s\<lparr>isOpen := \<not> isOpen s\<rparr>
         else s)"

definition toggleMenu :: "bool option \<Rightarrow> HookState \<Rightarrow> HookState" where
  "toggleMenu forceState s =
     s\<lparr>isOpen := (case forceState of Some b \<Rightarrow> b | None \<Rightarrow> \<not> isOpen s)\<rparr>"

section \<open>The event loop around the hook\<close>

text \<open>
  A display frame runs the callbacks that are in the window's list, in the order they were
  requested, and empties the list; \<open>innerWidth\<close> and \<open>innerHeight\<close> are the window's size
  during the frame.
\<close>

definition runFrame :: "UseOrbitalMenuProps \<Rightarrow> real \<Rightarrow> real \<Rightarrow> HookState \<Rightarrow> HookState" where
  "runFrame props innerWidth innerHeight s =
     fold (\<lambda>(h, ev) st. moveCallback props innerWidth innerHeight ev st)
       (frameCallbacks s) (s\<lparr>frameCallbacks := []\<rparr>)"

datatype Event =
    PointerDown int "DOMRect option" PointerEvent
  | PointerMove PointerEvent
  | PointerUp int PointerEvent
  | Click int PointerEvent
  | ToggleMenu "bool option"
  | AnimationFrame real real

fun dispatch :: "UseOrbitalMenuProps \<Rightarrow> Event \<Rightarrow> HookState \<Rightarrow> HookState" where
  "dispatch props (PointerDown now rect ev) s = handlePointerDown now rect ev s"
| "dispatch props (PointerMove ev) s = handlePointerMove ev s"
| "dispatch props (PointerUp now ev) s = handlePointerUp now ev s"
| "dispatch props (Click now ev) s = handleClick now ev s"
| "dispatch props (ToggleMenu forceState) s = toggleMenu forceState s"
| "dispatch props (AnimationFrame innerWidth innerHeight) s = runFrame props innerWidth innerHeight s"

text \<open>
  The effect's dependency array is \<^verbatim>\<open>[isOpen, buttonPosition, calculateItemPositions]\<close>.
  With the props fixed, \<^verbatim>\<open>calculateItemPositions\<close> stays the same function, so the effect
  is due after a render whose \<^verbatim>\<open>isOpen\<close> or \<^verbatim>\<open>buttonPosition\<close> differs from the render
  before. (React compares the position objects by identity; a frame callback that stores a
  new object with the old coordinates makes the effect store an equal list again, which the
  comparison of values here leaves out.)
\<close>

definition effectDue :: "HookState \<Rightarrow> HookState \<Rightarrow> bool" where
  "effectDue prev s = (isOpen s \<noteq> isOpen prev \<or> buttonPosition s \<noteq> buttonPosition prev)"

text \<open>
  The states the hook returns, in order, when one event arrives in state \<open>s\<close>. The handler's
  state changes are rendered first: that render has the new \<^verbatim>\<open>isOpen\<close> and
  \<^verbatim>\<open>buttonPosition\<close> and still the old \<^verbatim>\<open>itemPositions\<close>, which only the effect sets.
  When the effect is due it runs after that render, and \<^verbatim>\<open>setItemPositions\<close> causes a
  second render. \<open>update\<close> is the last of these states, the one the next event finds.
\<close>

definition renders :: "UseOrbitalMenuProps \<Rightarrow> Event \<Rightarrow> HookState \<Rightarrow> HookState list" where
  "renders props e s =
     (let r = dispatch props e s
      in if effectDue s r then [r, itemPositionsEffect props r] else [r])"

definition update :: "UseOrbitalMenuProps \<Rightarrow> Event \<Rightarrow> HookState \<Rightarrow> HookState" where
  "update props e s = last (renders props e s)"

definition run :: "UseOrbitalMenuProps \<Rightarrow> Event list \<Rightarrow> HookState \<Rightarrow> HookState" where
  "run props es s = foldl (\<lambda>st e. update props e st) s es"

text \<open>
  Mounting renders the initial state and then runs the effect for the first time.
\<close>

definition mount :: "UseOrbitalMenuProps \<Rightarrow> HookState" where
  "mount props = itemPositionsEffect props (useOrbitalMenu props)"


text \<open>
  The list of item positions is in step with the rest of the state: empty while the menu is
  closed, and the layout around the current button position while it is open.
\<close>

definition itemsInStep :: "UseOrbitalMenuProps \<Rightarrow> HookState \<Rightarrow> bool" where
  "itemsInStep props s =
     (itemPositions s =
        (if isOpen s
         then calculateItemPositions props (x (buttonPosition s)) (y (buttonPosition s))
         else []))"

section \<open>Facts about one update\<close>

lemma update_eq:
  "update props e s =
     (if effectDue s (dispatch props e s)
      then itemPositionsEffect props (dispatch props e s)
      else dispatch props e s)"
  by (simp add: update_def renders_def Let_def)

lemma update_fields [simp]:
  "isOpen (update props e s) = isOpen (dispatch props e s)"
  "buttonPosition (update props e s) = buttonPosition (dispatch props e s)"
  "isDragging (update props e s) = isDragging (dispatch props e s)"
  "dragStartRef (update props e s) = dragStartRef (dispatch props e s)"
  "dragStartTimeRef (update props e s) = dragStartTimeRef (dispatch props e s)"
  "dragOffsetRef (update props e s) = dragOffsetRef (dispatch props e s)"
  "animationFrameRef (update props e s) = animationFrameRef (dispatch props e s)"
  "frameCallbacks (update props e s) = frameCallbacks (dispatch props e s)"
  "frameCallbackId (update props e s) = frameCallbackId (dispatch props e s)"
  by (simp_all add: update_eq itemPositionsEffect_def)

section \<open>Facts about the layout loop\<close>

lemma calculateItemPositions_loop_done:
  "\<not> i < itemCount props \<Longrightarrow> calculateItemPositions_loop props cx cy i positions = positions"
  by (simp add: calculateItemPositions_loop.simps)

lemma calculateItemPositions_nonpositive:
  "itemCount props \<le> 0 \<Longrightarrow> calculateItemPositions props cx cy = []"
  by (simp add: calculateItemPositions_def calculateItemPositions_loop_done)

lemma calculateItemPositions_loop_step:
  "i < itemCount props \<Longrightarrow>
   calculateItemPositions_loop props cx cy i positions =
   calculateItemPositions_loop props cx cy (i + 1)
     (positions @ [\<lparr>x = cx + radius props * cos (startAngle props
                      + (if itemCount props = 1 then 0 else real_of_int i * angleStep props)),
                   y = cy + radius props * sin (startAngle props
                      + (if itemCount props = 1 then 0 else real_of_int i * angleStep props)),
                   angle = startAngle props
                      + (if itemCount props = 1 then 0 else real_of_int i * angleStep props)\<rparr>])"
  by (subst calculateItemPositions_loop.simps) (simp add: Let_def)

lemma calculateItemPositions_loop_map:
  "calculateItemPositions_loop props cx cy i positions =
   positions @ map (\<lambda>k. \<lparr>x = cx + radius props * cos (startAngle props
                      + (if itemCount props = 1 then 0 else real_of_int k * angleStep props)),
                   y = cy + radius props * sin (startAngle props
                      + (if itemCount props = 1 then 0 else real_of_int k * angleStep props)),
                   angle = startAngle props
                      + (if itemCount props = 1 then 0 else real_of_int k * angleStep props)\<rparr>)
      [i..itemCount props - 1]"
proof (induction props cx cy i positions rule: calculateItemPositions_loop.induct)
  case (1 props cx cy i positions)
  show ?case
  proof (cases "i < itemCount props")
    case True
    then have u: "[i..itemCount props - 1] = i # [i + 1..itemCount props - 1]"
      by (simp add: upto_rec1)
    show ?thesis
      using True "1.IH"[OF True refl refl refl] 
      by (simp add: calculateItemPositions_loop_step u)
  next
    case False
    then show ?thesis by (simp add: calculateItemPositions_loop_done)
  qed
qed

lemma length_calculateItemPositions:
  "length (calculateItemPositions props cx cy) = nat (itemCount props)"
  by (simp add: calculateItemPositions_def calculateItemPositions_loop_map)


section \<open>Facts about rounding to doubles\<close>




lemma toDouble_0 [simp]: "toDouble 0 = 0"
  by (simp add: toDouble_def)






section \<open>Facts about the clamp and the frame callback\<close>

lemma clampAxis_eq:
  "clampAxis b p e v = max (b / 2 + p) (min v (e - b / 2 - p))"
  by (simp add: clampAxis_def Let_def)

lemma clamp_idem: "clampAxis b p e (clampAxis b p e v) = clampAxis b p e v"
  unfolding clampAxis_eq by linarith

lemma clamp_inside: "b / 2 + p \<le> v \<Longrightarrow> v \<le> e - b / 2 - p \<Longrightarrow> clampAxis b p e v = v"
  unfolding clampAxis_eq by linarith

lemma moveCallback_fields [simp]:
  "frameCallbacks (moveCallback props w h ev s) = frameCallbacks s"
  "animationFrameRef (moveCallback props w h ev s) = animationFrameRef s"
  "dragOffsetRef (moveCallback props w h ev s) = dragOffsetRef s"
  "isDragging (moveCallback props w h ev s) = isDragging s"
  "dragStartRef (moveCallback props w h ev s) = dragStartRef s"
  "dragStartTimeRef (moveCallback props w h ev s) = dragStartTimeRef s"
  "isOpen (moveCallback props w h ev s) = isOpen s"
  by (simp_all add: moveCallback_def Let_def)

lemma buttonPosition_moveCallback:
  "buttonPosition (moveCallback props w h ev s) =
     \<lparr>x = clampAxis (buttonSize props) (boundaryPadding props) w (clientX ev - x (dragOffsetRef s)),
      y = clampAxis (buttonSize props) (boundaryPadding props) h (clientY ev - y (dragOffsetRef s))\<rparr>"
  by (simp add: moveCallback_def Let_def)

lemma fold_moveCallback_frameCallbacks:
  "frameCallbacks (fold (\<lambda>(k, ev) st. moveCallback props w h ev st) cbs s) = frameCallbacks s"
  by (induction cbs arbitrary: s) (simp_all add: split_def)

lemma fold_moveCallback_animationFrameRef:
  "animationFrameRef (fold (\<lambda>(k, ev) st. moveCallback props w h ev st) cbs s) = animationFrameRef s"
  by (induction cbs arbitrary: s) (simp_all add: split_def)

lemma fold_moveCallback_dragOffsetRef:
  "dragOffsetRef (fold (\<lambda>(k, ev) st. moveCallback props w h ev st) cbs s) = dragOffsetRef s"
  by (induction cbs arbitrary: s) (simp_all add: split_def)

lemma fold_moveCallback_isDragging:
  "isDragging (fold (\<lambda>(k, ev) st. moveCallback props w h ev st) cbs s) = isDragging s"
  by (induction cbs arbitrary: s) (simp_all add: split_def)

lemma fold_moveCallback_dragStartRef:
  "dragStartRef (fold (\<lambda>(k, ev) st. moveCallback props w h ev st) cbs s) = dragStartRef s"
  by (induction cbs arbitrary: s) (simp_all add: split_def)

lemma fold_moveCallback_dragStartTimeRef:
  "dragStartTimeRef (fold (\<lambda>(k, ev) st. moveCallback props w h ev st) cbs s) = dragStartTimeRef s"
  by (induction cbs arbitrary: s) (simp_all add: split_def)

lemma fold_moveCallback_isOpen:
  "isOpen (fold (\<lambda>(k, ev) st. moveCallback props w h ev st) cbs s) = isOpen s"
  by (induction cbs arbitrary: s) (simp_all add: split_def)

lemmas fold_moveCallback_fields =
  fold_moveCallback_frameCallbacks fold_moveCallback_animationFrameRef
  fold_moveCallback_dragOffsetRef fold_moveCallback_isDragging
  fold_moveCallback_dragStartRef fold_moveCallback_dragStartTimeRef fold_moveCallback_isOpen

lemma runFrame_fields [simp]:
  "frameCallbacks (runFrame props w h s) = []"
  "animationFrameRef (runFrame props w h s) = animationFrameRef s"
  "dragOffsetRef (runFrame props w h s) = dragOffsetRef s"
  "isDragging (runFrame props w h s) = isDragging s"
  "dragStartRef (runFrame props w h s) = dragStartRef s"
  "dragStartTimeRef (runFrame props w h s) = dragStartTimeRef s"
  "isOpen (runFrame props w h s) = isOpen s"
  by (simp_all add: runFrame_def fold_moveCallback_fields)

lemma runFrame_last:
  "frameCallbacks s = cbs @ [(k, ev)] \<Longrightarrow>
   buttonPosition (runFrame props w h s) =
     \<lparr>x = clampAxis (buttonSize props) (boundaryPadding props) w (clientX ev - x (dragOffsetRef s)),
      y = clampAxis (buttonSize props) (boundaryPadding props) h (clientY ev - y (dragOffsetRef s))\<rparr>"
  by (simp add: runFrame_def buttonPosition_moveCallback fold_moveCallback_fields)

lemma itemPositionsEffect_fields [simp]:
  "isOpen (itemPositionsEffect props s) = isOpen s"
  "buttonPosition (itemPositionsEffect props s) = buttonPosition s"
  "isDragging (itemPositionsEffect props s) = isDragging s"
  "dragStartRef (itemPositionsEffect props s) = dragStartRef s"
  "dragStartTimeRef (itemPositionsEffect props s) = dragStartTimeRef s"
  "dragOffsetRef (itemPositionsEffect props s) = dragOffsetRef s"
  "animationFrameRef (itemPositionsEffect props s) = animationFrameRef s"
  "frameCallbacks (itemPositionsEffect props s) = frameCallbacks s"
  "frameCallbackId (itemPositionsEffect props s) = frameCallbackId s"
  by (simp_all add: itemPositionsEffect_def)

section \<open>Facts about pointer moves and the callback list\<close>




lemma handlePointerMove_idle:
  "\<not> isDragging s \<or> dragStartRef s = None \<Longrightarrow> handlePointerMove ev s = s"
  by (simp add: handlePointerMove_def)



lemma handlePointerMove_keeps:
  "isDragging (handlePointerMove ev s) = isDragging s"
  "dragStartRef (handlePointerMove ev s) = dragStartRef s"
  "dragOffsetRef (handlePointerMove ev s) = dragOffsetRef s"
  "buttonPosition (handlePointerMove ev s) = buttonPosition s"
  "isOpen (handlePointerMove ev s) = isOpen s"
  by (simp_all add: handlePointerMove_def requestAnimationFrame_def cancelAnimationFrame_def Let_def
      split: option.split)


lemma handlePointerMove_appends:
  assumes "isDragging s" and "dragStartRef s \<noteq> None"
  shows "\<exists>cbs. frameCallbacks (handlePointerMove ev s) = cbs @ [(frameCallbackId s + 1, ev)]"
  using assms
  by (auto simp add: handlePointerMove_def requestAnimationFrame_def cancelAnimationFrame_def Let_def
      split: option.split)

lemma move_then_frame:
  assumes "isDragging s" and "dragStartRef s \<noteq> None"
  shows "buttonPosition (update props (AnimationFrame w h) (update props (PointerMove ev) s)) =
     \<lparr>x = clampAxis (buttonSize props) (boundaryPadding props) w (clientX ev - x (dragOffsetRef s)),
      y = clampAxis (buttonSize props) (boundaryPadding props) h (clientY ev - y (dragOffsetRef s))\<rparr>"
proof -
  obtain cbs where "frameCallbacks (handlePointerMove ev s) = cbs @ [(frameCallbackId s + 1, ev)]"
    using handlePointerMove_appends[OF assms] by blast
  then have "frameCallbacks (update props (PointerMove ev) s)
               = cbs @ [(frameCallbackId s + 1, ev)]"
    by simp
  from runFrame_last[OF this, of props w h] show ?thesis
    by (simp add: handlePointerMove_keeps)
qed

lemma clampAxis_in_range:
  "b / 2 + p \<le> e - b / 2 - p \<Longrightarrow>
   b / 2 + p \<le> clampAxis b p e v \<and> clampAxis b p e v \<le> e - b / 2 - p"
  unfolding clampAxis_eq by linarith

lemma run_Nil [simp]: "run props [] s = s"
  by (simp add: run_def)

lemma run_Cons [simp]: "run props (e # es) s = run props es (update props e s)"
  by (simp add: run_def)

lemma run_snoc: "run props (es @ [e]) s = update props e (run props es s)"
  by (simp add: run_def)





section \<open>Facts about the item-position effect\<close>

lemma itemPositions_moveCallback [simp]:
  "itemPositions (moveCallback props w h ev s) = itemPositions s"
  by (simp add: moveCallback_def Let_def)

lemma fold_moveCallback_itemPositions:
  "itemPositions (fold (\<lambda>(k, ev) st. moveCallback props w h ev st) cbs s) = itemPositions s"
  by (induction cbs arbitrary: s) (simp_all add: split_def)

lemma itemPositions_runFrame [simp]:
  "itemPositions (runFrame props w h s) = itemPositions s"
  by (simp add: runFrame_def fold_moveCallback_itemPositions)

lemma itemPositions_handlePointerMove [simp]:
  "itemPositions (handlePointerMove ev s) = itemPositions s"
  by (simp add: handlePointerMove_def requestAnimationFrame_def cancelAnimationFrame_def Let_def
      split: option.split)

lemma itemPositions_handlePointerUp [simp]:
  "itemPositions (handlePointerUp now ev s) = itemPositions s"
  by (simp add: handlePointerUp_def cancelAnimationFrame_def Let_def split: option.split)

lemma itemPositions_dispatch:
  "itemPositions (dispatch props e s) = itemPositions s"
  by (cases e) (simp_all add: handlePointerDown_def handleClick_def toggleMenu_def Let_def)

lemma itemsInStep_effect: "itemsInStep props (itemPositionsEffect props t)"
  by (simp add: itemsInStep_def itemPositionsEffect_def)

lemma itemsInStep_update:
  assumes "itemsInStep props s"
  shows "itemsInStep props (update props e s)"
proof (cases "effectDue s (dispatch props e s)")
  case True
  then show ?thesis by (simp add: update_eq itemsInStep_effect)
next
  case False
  then have "isOpen (dispatch props e s) = isOpen s"
    and "buttonPosition (dispatch props e s) = buttonPosition s"
    by (simp_all add: effectDue_def)
  then have "itemsInStep props (dispatch props e s)"
    using assms by (simp add: itemsInStep_def itemPositions_dispatch)
  then show ?thesis using False by (simp add: update_eq)
qed

lemma itemsInStep_mount: "itemsInStep props (mount props)"
  by (simp add: mount_def itemsInStep_effect)

lemma itemsInStep_run: "itemsInStep props s \<Longrightarrow> itemsInStep props (run props es s)"
  by (induction es arbitrary: s) (simp_all add: itemsInStep_update)

lemma itemsInStep_length:
  "itemsInStep props s \<Longrightarrow> isOpen s \<Longrightarrow> length (itemPositions s) = nat (itemCount props)"
  by (simp add: itemsInStep_def length_calculateItemPositions)

lemma first_render_out_of_step:
  assumes "itemsInStep props s" and "0 < itemCount props"
    and "isOpen (dispatch props e s) \<noteq> isOpen s"
  shows "\<not> itemsInStep props (dispatch props e s)"
proof
  assume a: "itemsInStep props (dispatch props e s)"
  show False
  proof (cases "isOpen s")
    case True
    then have "length (itemPositions s) = nat (itemCount props)"
      using assms(1) by (rule itemsInStep_length[rotated])
    moreover have "itemPositions s = []"
      using a True assms(3) by (simp add: itemsInStep_def itemPositions_dispatch)
    ultimately show False using assms(2) by simp
  next
    case False
    then have o: "isOpen (dispatch props e s)" using assms(3) by simp
    have "length (itemPositions (dispatch props e s)) = nat (itemCount props)"
      using a o by (rule itemsInStep_length)
    moreover have "itemPositions (dispatch props e s) = []"
      using False assms(1) by (simp add: itemsInStep_def itemPositions_dispatch)
    ultimately show False using assms(2) by simp
  qed
qed

lemma renders_first: "hd (renders props e s) = dispatch props e s"
  by (simp add: renders_def Let_def)

lemma renders_length:
  "length (renders props e s) = (if effectDue s (dispatch props e s) then 2 else 1)"
  by (simp add: renders_def Let_def)

section \<open>Claims about the layout\<close>




text \<open>
  C4. With \<open>itemCount = 1\<close> the layout is the one item at angle \<open>startAngle\<close> and position
  \<open>(cx + r * cos startAngle, cy + r * sin startAngle)\<close>, whatever the sweep angle is.
\<close>

theorem single_item:
  assumes "itemCount props = 1"
  shows "calculateItemPositions props cx cy =
           [\<lparr>x = cx + radius props * cos (startAngle props),
             y = cy + radius props * sin (startAngle props),
             angle = startAngle props\<rparr>]
       \<and> calculateItemPositions (props\<lparr>sweepAngle := sw\<rparr>) cx cy = calculateItemPositions props cx cy"
  using assms by (simp add: calculateItemPositions_def calculateItemPositions_loop_map)

theorem single_item_witness:
  "itemCount (defaultProps 1 800) = 1
   \<and> calculateItemPositions (defaultProps 1 800) 100 400 = [\<lparr>x = 100, y = 300, angle = - pi / 2\<rparr>]
   \<and> calculateItemPositions ((defaultProps 1 800)\<lparr>sweepAngle := 1\<rparr>) 100 400
       = [\<lparr>x = 100, y = 300, angle = - pi / 2\<rparr>]"
  using single_item[of "defaultProps 1 800" 100 400 1]
  by (simp add: defaultProps_def DEFAULT_START_ANGLE_def DEFAULT_RADIUS_def)

text \<open>
  C10. For every \<open>itemCount \<le> 0\<close>, negative values included, the layout is empty: a
  negative item count behaves as an item count of 0 and is not rejected.
\<close>

theorem nonpositive_itemCount_empty:
  assumes "itemCount props \<le> 0"
  shows "calculateItemPositions props cx cy = []
       \<and> calculateItemPositions props cx cy = calculateItemPositions (props\<lparr>itemCount := 0\<rparr>) cx cy"
  using assms by (simp add: calculateItemPositions_nonpositive)

theorem nonpositive_itemCount_empty_witness:
  "itemCount (defaultProps (- 3) 800) \<le> 0
   \<and> calculateItemPositions (defaultProps (- 3) 800) 100 400 = []"
  using nonpositive_itemCount_empty[of "defaultProps (- 3) 800" 100 400]
  by (simp add: defaultProps_def)

section \<open>Claims about the gesture handlers\<close>

text \<open>
  C9. A pointer-up or pointer-cancel event (both are bound to \<^verbatim>\<open>handlePointerUp\<close>) that
  arrives while \<^verbatim>\<open>isDragging\<close> is false returns at once: the whole state, with
  \<^verbatim>\<open>isOpen\<close>, the button position, \<^verbatim>\<open>isDragging\<close> and the refs, is what it was.
\<close>

theorem pointer_up_idle_noop:
  assumes "\<not> isDragging s"
  shows "handlePointerUp now ev s = s \<and> dispatch props (PointerUp now ev) s = s"
  using assms by (simp add: handlePointerUp_def)

theorem pointer_up_idle_noop_witness:
  "\<not> isDragging (mount (defaultProps 4 800))
   \<and> handlePointerUp 1000 \<lparr>clientX = 10, clientY = 20, pointerId = 1\<rparr> (mount (defaultProps 4 800))
       = mount (defaultProps 4 800)"
  using pointer_up_idle_noop[of "mount (defaultProps 4 800)" 1000
          "\<lparr>clientX = 10, clientY = 20, pointerId = 1\<rparr>" "defaultProps 4 800"]
  by (simp add: mount_def useOrbitalMenu_def itemPositionsEffect_def)

text \<open>
  C5. While a drag is on, a pointer move followed by a display frame sets the button position
  to the candidate centre \<open>pointer - offset\<close> with each axis clamped by
  \<open>max (half + padding) (min v (extent - half - padding))\<close>, which lies in the interval
  from \<open>half + padding\<close> to \<open>extent - half - padding\<close> whenever that interval is not empty.
  With a window of 1000 by 800, padding 10 and button size 50, the candidate \<open>(-50, 400)\<close>
  gives exactly \<open>(35, 400)\<close>.
\<close>

theorem drag_clamped_to_viewport:
  assumes "isDragging s" and "dragStartRef s \<noteq> None"
  shows "buttonPosition (update props (AnimationFrame w h) (update props (PointerMove ev) s)) =
           \<lparr>x = max (buttonSize props / 2 + boundaryPadding props)
                  (min (clientX ev - x (dragOffsetRef s))
                       (w - buttonSize props / 2 - boundaryPadding props)),
            y = max (buttonSize props / 2 + boundaryPadding props)
                  (min (clientY ev - y (dragOffsetRef s))
                       (h - buttonSize props / 2 - boundaryPadding props))\<rparr>
       \<and> (buttonSize props / 2 + boundaryPadding props \<le> w - buttonSize props / 2 - boundaryPadding props
          \<longrightarrow> buttonSize props / 2 + boundaryPadding props
                \<le> x (buttonPosition (update props (AnimationFrame w h) (update props (PointerMove ev) s)))
              \<and> x (buttonPosition (update props (AnimationFrame w h) (update props (PointerMove ev) s)))
                \<le> w - buttonSize props / 2 - boundaryPadding props)
       \<and> (buttonSize props / 2 + boundaryPadding props \<le> h - buttonSize props / 2 - boundaryPadding props
          \<longrightarrow> buttonSize props / 2 + boundaryPadding props
                \<le> y (buttonPosition (update props (AnimationFrame w h) (update props (PointerMove ev) s)))
              \<and> y (buttonPosition (update props (AnimationFrame w h) (update props (PointerMove ev) s)))
                \<le> h - buttonSize props / 2 - boundaryPadding props)
       \<and> (buttonSize props = 50 \<and> boundaryPadding props = 10 \<and> w = 1000 \<and> h = 800
            \<and> clientX ev - x (dragOffsetRef s) = - 50 \<and> clientY ev - y (dragOffsetRef s) = 400
          \<longrightarrow> buttonPosition (update props (AnimationFrame w h) (update props (PointerMove ev) s))
                = \<lparr>x = 35, y = 400\<rparr>)"
proof -
  let ?p = "buttonPosition (update props (AnimationFrame w h) (update props (PointerMove ev) s))"
  have pos: "?p =
     \<lparr>x = clampAxis (buttonSize props) (boundaryPadding props) w (clientX ev - x (dragOffsetRef s)),
      y = clampAxis (buttonSize props) (boundaryPadding props) h (clientY ev - y (dragOffsetRef s))\<rparr>"
    by (rule move_then_frame[OF assms])
  have general: "?p =
           \<lparr>x = max (buttonSize props / 2 + boundaryPadding props)
                  (min (clientX ev - x (dragOffsetRef s))
                       (w - buttonSize props / 2 - boundaryPadding props)),
            y = max (buttonSize props / 2 + boundaryPadding props)
                  (min (clientY ev - y (dragOffsetRef s))
                       (h - buttonSize props / 2 - boundaryPadding props))\<rparr>"
    using pos by (simp add: clampAxis_eq)
  have inx: "buttonSize props / 2 + boundaryPadding props \<le> x ?p
              \<and> x ?p \<le> w - buttonSize props / 2 - boundaryPadding props"
    if "buttonSize props / 2 + boundaryPadding props \<le> w - buttonSize props / 2 - boundaryPadding props"
    unfolding pos using clampAxis_in_range[OF that] by simp
  have iny: "buttonSize props / 2 + boundaryPadding props \<le> y ?p
              \<and> y ?p \<le> h - buttonSize props / 2 - boundaryPadding props"
    if "buttonSize props / 2 + boundaryPadding props \<le> h - buttonSize props / 2 - boundaryPadding props"
    unfolding pos using clampAxis_in_range[OF that] by simp
  have scenario: "?p = \<lparr>x = 35, y = 400\<rparr>"
    if "buttonSize props = 50 \<and> boundaryPadding props = 10 \<and> w = 1000 \<and> h = 800
            \<and> clientX ev - x (dragOffsetRef s) = - 50 \<and> clientY ev - y (dragOffsetRef s) = 400"
    unfolding general using that by simp
  show ?thesis using general inx iny scenario by blast
qed

theorem drag_clamped_to_viewport_witness:
  "isDragging (run (defaultProps 4 800)
       [PointerDown 0 (Some \<lparr>leftRect = 75, topRect = 375, widthRect = 50, heightRect = 50\<rparr>)
          \<lparr>clientX = 100, clientY = 400, pointerId = 1\<rparr>] (mount (defaultProps 4 800)))
   \<and> buttonPosition (mount (defaultProps 4 800)) = \<lparr>x = 100, y = 400\<rparr>
   \<and> buttonPosition (run (defaultProps 4 800)
       [PointerDown 0 (Some \<lparr>leftRect = 75, topRect = 375, widthRect = 50, heightRect = 50\<rparr>)
          \<lparr>clientX = 100, clientY = 400, pointerId = 1\<rparr>,
        PointerMove \<lparr>clientX = - 50, clientY = 400, pointerId = 1\<rparr>,
        AnimationFrame 1000 800] (mount (defaultProps 4 800))) = \<lparr>x = 35, y = 400\<rparr>"
  using drag_clamped_to_viewport[of
      "run (defaultProps 4 800)
       [PointerDown 0 (Some \<lparr>leftRect = 75, topRect = 375, widthRect = 50, heightRect = 50\<rparr>)
          \<lparr>clientX = 100, clientY = 400, pointerId = 1\<rparr>] (mount (defaultProps 4 800))"
      "defaultProps 4 800" 1000 800 "\<lparr>clientX = - 50, clientY = 400, pointerId = 1\<rparr>"]
  by (simp add: mount_def useOrbitalMenu_def handlePointerDown_def defaultProps_def
      DEFAULT_BUTTON_SIZE_def DEFAULT_BOUNDARY_PADDING_def)

text \<open>
  C6. The clamp of one axis is idempotent, \<open>clamp (clamp v) = clamp v\<close> (also when the
  interval is empty), and a value that already lies within the padded bounds is returned
  unchanged.
\<close>

theorem clamp_idempotent:
  "clampAxis b p e (clampAxis b p e v) = clampAxis b p e v
   \<and> (b / 2 + p \<le> v \<and> v \<le> e - b / 2 - p \<longrightarrow> clampAxis b p e v = v)"
  using clamp_idem[of b p e v] clamp_inside[of b p v e] by blast

theorem clamp_idempotent_witness:
  "clampAxis 50 10 1000 (clampAxis 50 10 1000 (- 50)) = clampAxis 50 10 1000 (- 50)
   \<and> clampAxis 50 10 1000 (- 50) = 35
   \<and> (50 / 2 + 10 \<le> (400::real) \<and> (400::real) \<le> 800 - 50 / 2 - 10)
   \<and> clampAxis 50 10 800 400 = 400"
  using clamp_idempotent[of 50 10 1000 "- 50"] clamp_idempotent[of 50 10 800 400]
  by (simp add: clampAxis_eq)



text \<open>
  C8, as the code has it. In every state the mounted hook is in once an update is complete,
  which is the state every event finds, \<^verbatim>\<open>itemPositions\<close> is empty when \<^verbatim>\<open>isOpen\<close> is
  false, and when \<^verbatim>\<open>isOpen\<close> is true it is what \<^verbatim>\<open>calculateItemPositions\<close> returns for the
  current button position, with \<^verbatim>\<open>itemCount\<close> entries. The first render after a handler
  still has the list the handler found: when the handler changed \<^verbatim>\<open>isOpen\<close> and
  \<^verbatim>\<open>itemCount\<close> is positive, that render is out of step, the effect runs, and the second
  render of the same update is in step again.
\<close>

theorem items_in_step_between_events:
  "(let s = run props es (mount props);
        first = hd (renders props e s);
        final = last (renders props e s)
    in itemsInStep props s
     \<and> (isOpen s \<longrightarrow> length (itemPositions s) = nat (itemCount props))
     \<and> first = dispatch props e s
     \<and> itemPositions first = itemPositions s
     \<and> (0 < itemCount props \<and> isOpen first \<noteq> isOpen s
          \<longrightarrow> \<not> itemsInStep props first \<and> length (renders props e s) = 2)
     \<and> final = run props (es @ [e]) (mount props)
     \<and> itemsInStep props final
     \<and> (isOpen final \<longrightarrow> length (itemPositions final) = nat (itemCount props)))"
proof -
  let ?s = "run props es (mount props)"
  have s: "itemsInStep props ?s"
    by (simp add: itemsInStep_run itemsInStep_mount)
  have len: "isOpen ?s \<longrightarrow> length (itemPositions ?s) = nat (itemCount props)"
    using s by (simp add: itemsInStep_length)
  have first: "hd (renders props e ?s) = dispatch props e ?s"
    by (rule renders_first)
  have keep: "itemPositions (hd (renders props e ?s)) = itemPositions ?s"
    by (simp only: first itemPositions_dispatch)
  have stale: "\<not> itemsInStep props (hd (renders props e ?s)) \<and> length (renders props e ?s) = 2"
    if "0 < itemCount props \<and> isOpen (hd (renders props e ?s)) \<noteq> isOpen ?s"
  proof -
    from that have p: "0 < itemCount props" by blast
    from that have c: "isOpen (dispatch props e ?s) \<noteq> isOpen ?s"
      unfolding first by blast
    then have "effectDue ?s (dispatch props e ?s)" by (simp add: effectDue_def)
    then have two: "length (renders props e ?s) = 2" by (simp add: renders_length)
    have "\<not> itemsInStep props (dispatch props e ?s)"
      using s p c by (rule first_render_out_of_step)
    then have "\<not> itemsInStep props (hd (renders props e ?s))"
      unfolding first .
    then show ?thesis using two by blast
  qed
  have final: "last (renders props e ?s) = run props (es @ [e]) (mount props)"
    by (simp only: run_snoc update_def)
  have fs: "itemsInStep props (last (renders props e ?s))"
    unfolding final by (simp add: itemsInStep_run itemsInStep_mount)
  have flen: "isOpen (last (renders props e ?s))
       \<longrightarrow> length (itemPositions (last (renders props e ?s))) = nat (itemCount props)"
    using fs by (simp add: itemsInStep_length)
  show ?thesis
    unfolding Let_def using s len first keep stale final fs flen by blast
qed

theorem items_in_step_between_events_witness:
  "0 < itemCount (defaultProps 4 800)
   \<and> \<not> isOpen (run (defaultProps 4 800)
          [PointerDown 1000 None \<lparr>clientX = 100, clientY = 400, pointerId = 1\<rparr>,
           PointerUp 1050 \<lparr>clientX = 101, clientY = 400, pointerId = 1\<rparr>]
          (mount (defaultProps 4 800)))
   \<and> isOpen (hd (renders (defaultProps 4 800)
       (Click 1050 \<lparr>clientX = 101, clientY = 400, pointerId = 1\<rparr>)
       (run (defaultProps 4 800)
          [PointerDown 1000 None \<lparr>clientX = 100, clientY = 400, pointerId = 1\<rparr>,
           PointerUp 1050 \<lparr>clientX = 101, clientY = 400, pointerId = 1\<rparr>]
          (mount (defaultProps 4 800)))))
   \<and> \<not> itemsInStep (defaultProps 4 800) (hd (renders (defaultProps 4 800)
       (Click 1050 \<lparr>clientX = 101, clientY = 400, pointerId = 1\<rparr>)
       (run (defaultProps 4 800)
          [PointerDown 1000 None \<lparr>clientX = 100, clientY = 400, pointerId = 1\<rparr>,
           PointerUp 1050 \<lparr>clientX = 101, clientY = 400, pointerId = 1\<rparr>]
          (mount (defaultProps 4 800)))))
   \<and> length (renders (defaultProps 4 800)
       (Click 1050 \<lparr>clientX = 101, clientY = 400, pointerId = 1\<rparr>)
       (run (defaultProps 4 800)
          [PointerDown 1000 None \<lparr>clientX = 100, clientY = 400, pointerId = 1\<rparr>,
           PointerUp 1050 \<lparr>clientX = 101, clientY = 400, pointerId = 1\<rparr>]
          (mount (defaultProps 4 800)))) = 2
   \<and> itemsInStep (defaultProps 4 800) (last (renders (defaultProps 4 800)
       (Click 1050 \<lparr>clientX = 101, clientY = 400, pointerId = 1\<rparr>)
       (run (defaultProps 4 800)
          [PointerDown 1000 None \<lparr>clientX = 100, clientY = 400, pointerId = 1\<rparr>,
           PointerUp 1050 \<lparr>clientX = 101, clientY = 400, pointerId = 1\<rparr>]
          (mount (defaultProps 4 800)))))
   \<and> length (itemPositions (last (renders (defaultProps 4 800)
       (Click 1050 \<lparr>clientX = 101, clientY = 400, pointerId = 1\<rparr>)
       (run (defaultProps 4 800)
          [PointerDown 1000 None \<lparr>clientX = 100, clientY = 400, pointerId = 1\<rparr>,
           PointerUp 1050 \<lparr>clientX = 101, clientY = 400, pointerId = 1\<rparr>]
          (mount (defaultProps 4 800)))))) = 4"
proof -
  let ?P = "defaultProps 4 800"
  let ?s = "run ?P [PointerDown 1000 None \<lparr>clientX = 100, clientY = 400, pointerId = 1\<rparr>,
           PointerUp 1050 \<lparr>clientX = 101, clientY = 400, pointerId = 1\<rparr>] (mount ?P)"
  let ?click = "Click 1050 \<lparr>clientX = 101, clientY = 400, pointerId = 1\<rparr>"
  have c: "0 < itemCount ?P" and n: "nat (itemCount ?P) = 4"
    by (simp_all add: defaultProps_def)
  have closed: "\<not> isOpen ?s"
    by (simp add: mount_def useOrbitalMenu_def handlePointerDown_def handlePointerUp_def)
  have opened: "isOpen (hd (renders ?P ?click ?s))"
    by (simp add: renders_first mount_def useOrbitalMenu_def handlePointerDown_def
        handlePointerUp_def handleClick_def distanceMoved_def CLICK_THRESHOLD_MS_def
        CLICK_THRESHOLD_PX_def)
  then have "isOpen (update ?P ?click ?s)"
    by (simp only: update_fields renders_first)
  then have final: "isOpen (last (renders ?P ?click ?s))"
    by (simp only: update_def)
  have differ: "isOpen (hd (renders ?P ?click ?s)) \<noteq> isOpen ?s"
    using closed opened by blast
  show ?thesis
    using items_in_step_between_events[of ?P
          "[PointerDown 1000 None \<lparr>clientX = 100, clientY = 400, pointerId = 1\<rparr>,
           PointerUp 1050 \<lparr>clientX = 101, clientY = 400, pointerId = 1\<rparr>]" ?click]
      c n closed opened final differ
    unfolding Let_def by metis
qed

text \<open>
  C8, as the spec has it, fails in the first render after a handler that changes
  \<^verbatim>\<open>isOpen\<close>. After a tap, the first state the hook returns for the click has \<^verbatim>\<open>isOpen\<close>
  true and no item positions, although \<^verbatim>\<open>itemCount\<close> is 4; and when \<^verbatim>\<open>toggleMenu(false)\<close>
  closes the open menu, the first state returned has \<^verbatim>\<open>isOpen\<close> false and still four item
  positions.
\<close>

theorem items_stale_in_first_render:
  "isOpen (hd (renders (defaultProps 4 800)
       (Click 1050 \<lparr>clientX = 101, clientY = 400, pointerId = 1\<rparr>)
       (run (defaultProps 4 800)
          [PointerDown 1000 None \<lparr>clientX = 100, clientY = 400, pointerId = 1\<rparr>,
           PointerUp 1050 \<lparr>clientX = 101, clientY = 400, pointerId = 1\<rparr>]
          (mount (defaultProps 4 800)))))
   \<and> itemPositions (hd (renders (defaultProps 4 800)
       (Click 1050 \<lparr>clientX = 101, clientY = 400, pointerId = 1\<rparr>)
       (run (defaultProps 4 800)
          [PointerDown 1000 None \<lparr>clientX = 100, clientY = 400, pointerId = 1\<rparr>,
           PointerUp 1050 \<lparr>clientX = 101, clientY = 400, pointerId = 1\<rparr>]
          (mount (defaultProps 4 800))))) = []
   \<and> itemCount (defaultProps 4 800) = 4
   \<and> length (calculateItemPositions (defaultProps 4 800) 100 400) = 4
   \<and> \<not> isOpen (hd (renders (defaultProps 4 800) (ToggleMenu (Some False))
       (run (defaultProps 4 800)
          [PointerDown 1000 None \<lparr>clientX = 100, clientY = 400, pointerId = 1\<rparr>,
           PointerUp 1050 \<lparr>clientX = 101, clientY = 400, pointerId = 1\<rparr>,
           Click 1050 \<lparr>clientX = 101, clientY = 400, pointerId = 1\<rparr>]
          (mount (defaultProps 4 800)))))
   \<and> length (itemPositions (hd (renders (defaultProps 4 800) (ToggleMenu (Some False))
       (run (defaultProps 4 800)
          [PointerDown 1000 None \<lparr>clientX = 100, clientY = 400, pointerId = 1\<rparr>,
           PointerUp 1050 \<lparr>clientX = 101, clientY = 400, pointerId = 1\<rparr>,
           Click 1050 \<lparr>clientX = 101, clientY = 400, pointerId = 1\<rparr>]
          (mount (defaultProps 4 800)))))) = 4"
proof -
  let ?P = "defaultProps 4 800"
  let ?tap = "[PointerDown 1000 None \<lparr>clientX = 100, clientY = 400, pointerId = 1\<rparr>,
           PointerUp 1050 \<lparr>clientX = 101, clientY = 400, pointerId = 1\<rparr>]"
  let ?click = "Click 1050 \<lparr>clientX = 101, clientY = 400, pointerId = 1\<rparr>"
  have closed: "\<not> isOpen (run ?P ?tap (mount ?P))"
    by (simp add: mount_def useOrbitalMenu_def handlePointerDown_def handlePointerUp_def)
  have a: "isOpen (hd (renders ?P ?click (run ?P ?tap (mount ?P))))"
    by (simp add: renders_first mount_def useOrbitalMenu_def handlePointerDown_def
        handlePointerUp_def handleClick_def distanceMoved_def CLICK_THRESHOLD_MS_def
        CLICK_THRESHOLD_PX_def)
  have "itemsInStep ?P (run ?P ?tap (mount ?P))"
    by (simp only: itemsInStep_run itemsInStep_mount)
  then have "itemPositions (run ?P ?tap (mount ?P)) = []"
    using closed by (simp add: itemsInStep_def)
  then have b: "itemPositions (hd (renders ?P ?click (run ?P ?tap (mount ?P)))) = []"
    by (simp only: renders_first itemPositions_dispatch)
  have c: "itemCount ?P = 4" by (simp add: defaultProps_def)
  have d: "length (calculateItemPositions ?P 100 400) = 4"
    by (simp add: length_calculateItemPositions c)
  have opened: "isOpen (run ?P (?tap @ [?click]) (mount ?P))"
    using a by (simp only: run_snoc update_fields renders_first)
  have "itemsInStep ?P (run ?P (?tap @ [?click]) (mount ?P))"
    by (simp only: itemsInStep_run itemsInStep_mount)
  then have "length (itemPositions (run ?P (?tap @ [?click]) (mount ?P))) = 4"
    using opened c by (simp add: itemsInStep_length)
  then have f: "length (itemPositions (hd (renders ?P (ToggleMenu (Some False))
       (run ?P (?tap @ [?click]) (mount ?P))))) = 4"
    by (simp only: renders_first itemPositions_dispatch)
  have e: "\<not> isOpen (hd (renders ?P (ToggleMenu (Some False))
       (run ?P (?tap @ [?click]) (mount ?P))))"
    by (simp add: renders_first toggleMenu_def)
  show ?thesis using a b c d e f by simp
qed

text \<open>
  C1. The claim: a gesture of pointer-down, pointer-up and click whose click point is more
  than 5 pixels from the start point leaves \<^verbatim>\<open>isOpen\<close> unchanged; its example is a
  pointer-down at time 0 at \<open>(100, 100)\<close> with pointer-up and click at 50 ms at
  \<open>(140, 100)\<close>. The code does otherwise: \<^verbatim>\<open>handlePointerUp\<close> sets
  \<^verbatim>\<open>dragStartRef\<close> to null before the click arrives, so \<^verbatim>\<open>handleClick\<close> takes the
  distance to be 0 and, the duration being under 200 ms, toggles \<^verbatim>\<open>isOpen\<close>, although
  the pointer moved 40 pixels.
\<close>

theorem quick_drag_toggles:
  "distanceMoved \<lparr>clientX = 140, clientY = 100, pointerId = 1\<rparr>
     (update props (PointerDown 0 rect \<lparr>clientX = 100, clientY = 100, pointerId = 1\<rparr>) s) = 40
   \<and> isOpen (run props
        [PointerDown 0 rect \<lparr>clientX = 100, clientY = 100, pointerId = 1\<rparr>,
         PointerUp 50 \<lparr>clientX = 140, clientY = 100, pointerId = 1\<rparr>,
         Click 50 \<lparr>clientX = 140, clientY = 100, pointerId = 1\<rparr>] s) = (\<not> isOpen s)"
proof -
  have "sqrt ((140 - 100)\<^sup>2 + (100 - 100)\<^sup>2) = (40::real)"
  proof -
    have "(140 - 100)\<^sup>2 + (100 - 100)\<^sup>2 = (40::real)\<^sup>2" by simp
    then have "sqrt ((140 - 100)\<^sup>2 + (100 - 100)\<^sup>2) = \<bar>40::real\<bar>"
      by (simp only: real_sqrt_abs)
    then show ?thesis by simp
  qed
  then have d: "distanceMoved \<lparr>clientX = 140, clientY = 100, pointerId = 1\<rparr>
     (update props (PointerDown 0 rect \<lparr>clientX = 100, clientY = 100, pointerId = 1\<rparr>) s) = 40"
    by (simp add: distanceMoved_def handlePointerDown_def)
  have t: "isOpen (run props
        [PointerDown 0 rect \<lparr>clientX = 100, clientY = 100, pointerId = 1\<rparr>,
         PointerUp 50 \<lparr>clientX = 140, clientY = 100, pointerId = 1\<rparr>,
         Click 50 \<lparr>clientX = 140, clientY = 100, pointerId = 1\<rparr>] s) = (\<not> isOpen s)"
    by (simp add: handlePointerDown_def handlePointerUp_def handleClick_def
        distanceMoved_def cancelAnimationFrame_def CLICK_THRESHOLD_MS_def CLICK_THRESHOLD_PX_def
        Let_def split: option.split)
  show ?thesis using d t by blast
qed

theorem quick_drag_toggles_witness:
  "\<not> isOpen (mount (defaultProps 4 800))
   \<and> isOpen (run (defaultProps 4 800)
        [PointerDown 0 (Some \<lparr>leftRect = 75, topRect = 75, widthRect = 50, heightRect = 50\<rparr>)
           \<lparr>clientX = 100, clientY = 100, pointerId = 1\<rparr>,
         PointerUp 50 \<lparr>clientX = 140, clientY = 100, pointerId = 1\<rparr>,
         Click 50 \<lparr>clientX = 140, clientY = 100, pointerId = 1\<rparr>] (mount (defaultProps 4 800)))"
  using quick_drag_toggles[of "defaultProps 4 800"
      "Some \<lparr>leftRect = 75, topRect = 75, widthRect = 50, heightRect = 50\<rparr>"
      "mount (defaultProps 4 800)"]
  by (simp add: mount_def useOrbitalMenu_def)

text \<open>
  C2. The claim: a click that no pointer-down of the same gesture precedes (the button
  activated from the keyboard) toggles \<^verbatim>\<open>isOpen\<close>. The code does otherwise:
  \<^verbatim>\<open>handleClick\<close> measures the duration from \<^verbatim>\<open>dragStartTimeRef\<close>, which is 0 after
  mounting and otherwise the time of the last pointer-down, so a keyboard click more than
  200 ms after that time changes nothing: neither on the freshly mounted hook, nor four
  seconds after a tap that had toggled the menu.
\<close>

theorem keyboard_click_ignored:
  "\<not> isOpen (mount props)
   \<and> \<not> isOpen (update props (Click 1700000000000 ev) (mount props))
   \<and> update props (Click 1700000000000 ev) (mount props) = mount props
   \<and> isOpen (run props
        [PointerDown 1000 rect \<lparr>clientX = 100, clientY = 100, pointerId = 1\<rparr>,
         PointerUp 1050 \<lparr>clientX = 100, clientY = 100, pointerId = 1\<rparr>,
         Click 1050 \<lparr>clientX = 100, clientY = 100, pointerId = 1\<rparr>,
         Click 5000 ev] s)
     = isOpen (run props
        [PointerDown 1000 rect \<lparr>clientX = 100, clientY = 100, pointerId = 1\<rparr>,
         PointerUp 1050 \<lparr>clientX = 100, clientY = 100, pointerId = 1\<rparr>,
         Click 1050 \<lparr>clientX = 100, clientY = 100, pointerId = 1\<rparr>] s)"
proof -
  have a: "update props (Click 1700000000000 ev) (mount props) = mount props"
    by (simp add: update_eq effectDue_def mount_def useOrbitalMenu_def handleClick_def distanceMoved_def
      itemPositionsEffect_def CLICK_THRESHOLD_MS_def Let_def)
  have b: "\<not> isOpen (mount props)"
    by (simp add: mount_def useOrbitalMenu_def)
  have c: "isOpen (run props
        [PointerDown 1000 rect \<lparr>clientX = 100, clientY = 100, pointerId = 1\<rparr>,
         PointerUp 1050 \<lparr>clientX = 100, clientY = 100, pointerId = 1\<rparr>,
         Click 1050 \<lparr>clientX = 100, clientY = 100, pointerId = 1\<rparr>,
         Click 5000 ev] s)
     = isOpen (run props
        [PointerDown 1000 rect \<lparr>clientX = 100, clientY = 100, pointerId = 1\<rparr>,
         PointerUp 1050 \<lparr>clientX = 100, clientY = 100, pointerId = 1\<rparr>,
         Click 1050 \<lparr>clientX = 100, clientY = 100, pointerId = 1\<rparr>] s)"
    by (simp add: handlePointerDown_def handlePointerUp_def handleClick_def
        distanceMoved_def cancelAnimationFrame_def CLICK_THRESHOLD_MS_def CLICK_THRESHOLD_PX_def
        Let_def split: option.split)
  show ?thesis using a b c by simp
qed

theorem keyboard_click_ignored_witness:
  "update (defaultProps 4 800) (Click 1700000000000 \<lparr>clientX = 0, clientY = 0, pointerId = 0\<rparr>)
     (mount (defaultProps 4 800)) = mount (defaultProps 4 800)
   \<and> \<not> isOpen (mount (defaultProps 4 800))"
  using keyboard_click_ignored[of "defaultProps 4 800" "\<lparr>clientX = 0, clientY = 0, pointerId = 0\<rparr>"
      None "mount (defaultProps 4 800)"]
  by simp

end
